theory Spec2Isabelle
  imports Main
begin

section \<open>dmlc::any: a type-erased value container (include/dmlc/any.h)\<close>

text \<open>
  The container is a pointer \<open>type_\<close> to a per-type descriptor and a union \<open>data_\<close> of
  an inline buffer and a heap pointer. The model keeps the container objects in a store
  indexed by their address, so that an operation on two references that name the same
  object (\<open>a = std::move(a)\<close>, \<open>a.swap(a)\<close>) is the operation the code performs. Blocks
  obtained from \<open>operator new\<close> live in a separate heap. A trace records every payload
  constructor and destructor call and every \<open>new\<close> and \<open>delete\<close>.
\<close>

subsection \<open>Payload types\<close>

type_synonym addr = nat
type_synonym loc = nat

text \<open>\<open>std::type_info\<close>: the address of the object (its identity) and \<open>name()\<close>.\<close>

record type_info =
  tid :: nat
  name :: string

definition typeid_void :: type_info where
  "typeid_void = \<lparr>tid = 0, name = ''v''\<rparr>"

definition typeid_any :: type_info where
  "typeid_any = \<lparr>tid = 1, name = ''N4dmlc3anyE''\<rparr>"

text \<open>
  What the templates ask about a decayed type \<open>T\<close> whose values are drawn from \<open>'v\<close>:
  \<open>typeid(T)\<close>, \<open>sizeof(T)\<close>, \<open>alignof(T)\<close>, the traits \<open>std::is_pod\<close>,
  \<open>std::is_trivially_destructible\<close> and \<open>std::is_copy_constructible\<close>, and the
  constructor \<open>T(other)\<close>, which yields the new instance or throws (\<open>None\<close>).
\<close>

record 'v ctype =
  typeid :: type_info
  sizeof :: nat
  alignof :: nat
  is_pod :: bool
  is_trivially_destructible :: bool
  is_copy_constructible :: bool
  copy_ctor :: "'v \<Rightarrow> 'v option"

text \<open>
  A POD type is trivially destructible, size and alignment are positive, and its \<open>type_info\<close> is neither that of \<open>void\<close> nor that of the container.
\<close>

definition wf_ctype :: "'v ctype \<Rightarrow> bool" where
  "wf_ctype T =
     ((\<not> is_pod T \<or> is_trivially_destructible T) \<and> 0 < alignof T \<and> 0 < sizeof T \<and>
      tid (typeid T) \<noteq> tid typeid_void \<and> tid (typeid T) \<noteq> tid typeid_any)"

subsection \<open>Storage and descriptors\<close>

text \<open>\<open>kStack = sizeof(void*) * 3\<close> and \<open>kAlign = sizeof(void*)\<close>; \<open>w\<close> is \<open>sizeof(void*)\<close>.\<close>

definition kStack :: "nat \<Rightarrow> nat" where
  "kStack w = w * 3"

definition kAlign :: "nat \<Rightarrow> nat" where
  "kAlign w = w"

text \<open>
  \<open>union Data\<close>: the buffer holds an inline instance, or a heap pointer, or nothing yet
  (a default-constructed container leaves it uninitialised).
\<close>

datatype 'v Data = Indeterminate | Stack 'v | Pheap addr

definition data_on_stack :: "nat \<Rightarrow> 'v ctype \<Rightarrow> bool" where
  "data_on_stack w T = (alignof T \<le> kAlign w \<and> sizeof T \<le> kStack w)"

text \<open>
  A function pointer of the descriptor is the class it was taken from:
  \<open>TypeOnStack<T>\<close> or \<open>TypeOnHeap<T>\<close>.
\<close>

datatype 'v accessor = TypeOnStack "'v ctype" | TypeOnHeap "'v ctype"

record 'v Type =
  destroy :: "'v accessor option"
  create_from_data :: "'v accessor"
  ptype_info :: type_info

text \<open>The members \<open>type_\<close> and \<open>data_\<close> of the class are the fields \<open>m_type\<close> and \<open>m_data\<close>.\<close>

record 'v any =
  m_type :: "'v Type option"
  m_data :: "'v Data"

text \<open>
  \<open>TypeInfo<T>\<close> derives from \<open>TypeOnStack<T>\<close> when \<open>data_on_stack<T>::value\<close> and
  from \<open>TypeOnHeap<T>\<close> otherwise; its constructor fills the descriptor.
  \<open>get_type()\<close> returns the address of the one static descriptor of \<open>T\<close>, which the
  model identifies with the descriptor's content.
\<close>

definition TypeInfo_base :: "nat \<Rightarrow> 'v ctype \<Rightarrow> 'v accessor" where
  "TypeInfo_base w T = (if data_on_stack w T then TypeOnStack T else TypeOnHeap T)"

definition TypeInfo :: "nat \<Rightarrow> 'v ctype \<Rightarrow> 'v Type" where
  "TypeInfo w T =
     \<lparr>destroy = (if is_pod T then None else Some (TypeInfo_base w T)),
      create_from_data = TypeInfo_base w T,
      ptype_info = typeid T\<rparr>"

definition get_type :: "nat \<Rightarrow> 'v ctype \<Rightarrow> 'v Type" where
  "get_type w T = TypeInfo w T"

subsection \<open>Program state and outcomes\<close>

datatype 'v event = Ctor 'v | Dtor 'v | New addr | Delete addr

record 'v state =
  objs :: "loc \<Rightarrow> 'v any"
  heap :: "addr \<rightharpoonup> 'v"
  avail :: "addr list"
  trace :: "'v event list"

text \<open>
  \<open>IllFormed\<close>: the program is rejected at compile time. \<open>Exception\<close>: a C++ exception
  leaves the function. \<open>Terminated\<close>: an exception reached a \<open>noexcept\<close> boundary.
  \<open>Fatal\<close>: a failed \<open>CHECK\<close>, with the streamed message. \<open>Undefined\<close>: the code reads
  the inactive member of the union or a block that is not allocated.
  A failing operation returns the state it failed in.
\<close>

datatype error = IllFormed | Exception | Terminated | Fatal string | Undefined

type_synonym 'v result = "(error \<times> 'v state) + 'v state"

definition noexcept :: "'v result \<Rightarrow> 'v result" where
  "noexcept r =
     (case r of
        Inl (e, s) \<Rightarrow> (if e = Exception then Inl (Terminated, s) else Inl (e, s))
      | Inr s \<Rightarrow> Inr s)"

definition set_type :: "loc \<Rightarrow> 'v Type option \<Rightarrow> 'v state \<Rightarrow> 'v state" where
  "set_type a t s = s\<lparr>objs := (objs s)(a := (objs s a)\<lparr>m_type := t\<rparr>)\<rparr>"

definition set_data :: "loc \<Rightarrow> 'v Data \<Rightarrow> 'v state \<Rightarrow> 'v state" where
  "set_data a d s = s\<lparr>objs := (objs s)(a := (objs s a)\<lparr>m_data := d\<rparr>)\<rparr>"

definition log :: "'v event list \<Rightarrow> 'v state \<Rightarrow> 'v state" where
  "log evs s = s\<lparr>trace := trace s @ evs\<rparr>"

text \<open>
  \<open>new T(x)\<close>: take a free block (\<open>std::bad_alloc\<close> when there is none), construct the
  instance in it; when the constructor throws the block is not taken.
  \<open>delete p\<close>: run the destructor and give the block back.
\<close>

definition new_T :: "'v ctype \<Rightarrow> 'v \<Rightarrow> 'v state \<Rightarrow> (error \<times> 'v state) + (addr \<times> 'v state)" where
  "new_T T x s =
     (case avail s of
        [] \<Rightarrow> Inl (Exception, s)
      | p # ps \<Rightarrow>
          (case copy_ctor T x of
             None \<Rightarrow> Inl (Exception, s)
           | Some y \<Rightarrow>
               Inr (p, log [New p, Ctor y] (s\<lparr>heap := (heap s)(p \<mapsto> y), avail := ps\<rparr>))))"

definition delete_T :: "addr \<Rightarrow> 'v state \<Rightarrow> 'v result" where
  "delete_T p s =
     (case heap s p of
        None \<Rightarrow> Inl (Undefined, s)
      | Some y \<Rightarrow>
          Inr (log [Dtor y, Delete p] (s\<lparr>heap := (heap s)(p := None), avail := p # avail s\<rparr>)))"

text \<open>\<open>new (&(data->stack)) T(x)\<close> in the buffer of the container at \<open>a\<close>.\<close>

definition placement_new :: "'v ctype \<Rightarrow> loc \<Rightarrow> 'v \<Rightarrow> 'v state \<Rightarrow> 'v result" where
  "placement_new T a x s =
     (case copy_ctor T x of
        None \<Rightarrow> Inl (Exception, s)
      | Some y \<Rightarrow> Inr (log [Ctor y] (set_data a (Stack y) s)))"

subsection \<open>The two accessor classes\<close>

text \<open>
  \<open>get_ptr\<close> followed by the dereference every caller applies to it: the instance the
  pointer refers to, \<open>None\<close> where there is none.
\<close>

definition TypeOnHeap_get_ptr :: "'v Data \<Rightarrow> 'v state \<Rightarrow> 'v option" where
  "TypeOnHeap_get_ptr d s = (case d of Pheap p \<Rightarrow> heap s p | _ \<Rightarrow> None)"

definition TypeOnStack_get_ptr :: "'v Data \<Rightarrow> 'v option" where
  "TypeOnStack_get_ptr d = (case d of Stack x \<Rightarrow> Some x | _ \<Rightarrow> None)"

text \<open>\<open>dst->pheap = new T(*get_ptr(&data))\<close>; \<open>dst\<close> and \<open>src\<close> are the containers whose buffers are passed.\<close>

definition TypeOnHeap_create_from_data :: "'v ctype \<Rightarrow> loc \<Rightarrow> loc \<Rightarrow> 'v state \<Rightarrow> 'v result" where
  "TypeOnHeap_create_from_data T dst src s =
     (case TypeOnHeap_get_ptr (m_data (objs s src)) s of
        None \<Rightarrow> Inl (Undefined, s)
      | Some x \<Rightarrow>
          (case new_T T x s of
             Inl e \<Rightarrow> Inl e
           | Inr (p, s') \<Rightarrow> Inr (set_data dst (Pheap p) s')))"

text \<open>\<open>delete static_cast<T*>(data->pheap)\<close>\<close>

definition TypeOnHeap_destroy :: "loc \<Rightarrow> 'v state \<Rightarrow> 'v result" where
  "TypeOnHeap_destroy a s =
     (case m_data (objs s a) of
        Pheap p \<Rightarrow> delete_T p s
      | _ \<Rightarrow> Inl (Undefined, s))"

text \<open>\<open>new (&(dst->stack)) T(*get_ptr(&data))\<close>\<close>

definition TypeOnStack_create_from_data :: "'v ctype \<Rightarrow> loc \<Rightarrow> loc \<Rightarrow> 'v state \<Rightarrow> 'v result" where
  "TypeOnStack_create_from_data T dst src s =
     (case TypeOnStack_get_ptr (m_data (objs s src)) of
        None \<Rightarrow> Inl (Undefined, s)
      | Some x \<Rightarrow> placement_new T dst x s)"

text \<open>\<open>dptr->~T()\<close> on the instance in the buffer.\<close>

definition TypeOnStack_destroy :: "loc \<Rightarrow> 'v state \<Rightarrow> 'v result" where
  "TypeOnStack_destroy a s =
     (case m_data (objs s a) of
        Stack x \<Rightarrow> Inr (log [Dtor x] s)
      | _ \<Rightarrow> Inl (Undefined, s))"

text \<open>Calls through the descriptor's function pointers, and the static \<open>TypeInfo<T>::get_ptr\<close>.\<close>

fun call_destroy :: "'v accessor \<Rightarrow> loc \<Rightarrow> 'v state \<Rightarrow> 'v result" where
  "call_destroy (TypeOnStack T) a s = TypeOnStack_destroy a s"
| "call_destroy (TypeOnHeap T) a s = TypeOnHeap_destroy a s"

fun call_create_from_data :: "'v accessor \<Rightarrow> loc \<Rightarrow> loc \<Rightarrow> 'v state \<Rightarrow> 'v result" where
  "call_create_from_data (TypeOnStack T) dst src s = TypeOnStack_create_from_data T dst src s"
| "call_create_from_data (TypeOnHeap T) dst src s = TypeOnHeap_create_from_data T dst src s"

definition TypeInfo_get_ptr :: "nat \<Rightarrow> 'v ctype \<Rightarrow> 'v Data \<Rightarrow> 'v state \<Rightarrow> 'v option" where
  "TypeInfo_get_ptr w T d s =
     (if data_on_stack w T then TypeOnStack_get_ptr d else TypeOnHeap_get_ptr d s)"

subsection \<open>Constructors, destructor, assignment\<close>

text \<open>The member initialisers: \<open>type_{nullptr}\<close>, \<open>data_\<close> left uninitialised.\<close>

definition init :: "loc \<Rightarrow> 'v state \<Rightarrow> 'v state" where
  "init a s = s\<lparr>objs := (objs s)(a := \<lparr>m_type = None, m_data = Indeterminate\<rparr>)\<rparr>"

definition any_default :: "loc \<Rightarrow> 'v state \<Rightarrow> 'v state" where
  "any_default this s = init this s"

text \<open>\<open>construct(any&& other)\<close>: \<open>type_ = other.type_; data_ = other.data_; other.type_ = nullptr;\<close>\<close>

definition construct_move :: "loc \<Rightarrow> loc \<Rightarrow> 'v state \<Rightarrow> 'v state" where
  "construct_move this other s =
     (let s1 = set_type this (m_type (objs s other)) s;
          s2 = set_data this (m_data (objs s1 other)) s1
      in set_type other None s2)"

text \<open>
  \<open>construct(const any& other) noexcept\<close>:
  \<open>type_ = other.type_; if (type_ != nullptr) type_->create_from_data(&data_, other.data_);\<close>
\<close>

definition construct_copy :: "loc \<Rightarrow> loc \<Rightarrow> 'v state \<Rightarrow> 'v result" where
  "construct_copy this other s =
     noexcept
       (let s1 = set_type this (m_type (objs s other)) s
        in case m_type (objs s1 this) of
             None \<Rightarrow> Inr s1
           | Some t \<Rightarrow> call_create_from_data (create_from_data t) this other s1)"

definition any_move :: "loc \<Rightarrow> loc \<Rightarrow> 'v state \<Rightarrow> 'v state" where
  "any_move this other s = construct_move this other (init this s)"

definition any_copy :: "loc \<Rightarrow> loc \<Rightarrow> 'v state \<Rightarrow> 'v result" where
  "any_copy this other s = construct_copy this other (init this s)"

text \<open>The qualification of an object expression.\<close>

datatype cv = NonConst | Const

text \<open>
  The argument of the template constructor \<open>any(T&& other)\<close>: a value of a payload type
  \<open>DT\<close>, or a container, for which \<open>std::is_same<DT, any>::value\<close> holds and
  \<open>std::forward<T>(other)\<close> selects the overload of \<open>construct\<close>: a non-const rvalue
  binds to \<open>construct(any&&)\<close>; an lvalue, const or not, and a const rvalue bind to
  \<open>construct(const any&)\<close>. The \<open>static_assert\<close> rejects a payload type that is not
  copy constructible.
\<close>

datatype 'v operand = Val "'v ctype" 'v | AnyLvalue loc | AnyRvalue cv loc

fun any_value :: "nat \<Rightarrow> loc \<Rightarrow> 'v operand \<Rightarrow> 'v state \<Rightarrow> 'v result" where
  "any_value w this (AnyRvalue NonConst other) s =
     Inr (construct_move this other (init this s))"
| "any_value w this (AnyRvalue Const other) s = construct_copy this other (init this s)"
| "any_value w this (AnyLvalue other) s = construct_copy this other (init this s)"
| "any_value w this (Val DT other) s =
     (if \<not> is_copy_constructible DT then Inl (IllFormed, s)
      else
        let s1 = set_type this (Some (get_type w DT)) (init this s)
        in if data_on_stack w DT then placement_new DT this other s1
           else (case new_T DT other s1 of
                   Inl e \<Rightarrow> Inl e
                 | Inr (p, s2) \<Rightarrow> Inr (set_data this (Pheap p) s2)))"

text \<open>\<open>clear()\<close>, and the destructor, which calls it.\<close>

definition clear :: "loc \<Rightarrow> 'v state \<Rightarrow> 'v result" where
  "clear this s =
     (case m_type (objs s this) of
        None \<Rightarrow> Inr s
      | Some t \<Rightarrow>
          (case (case destroy t of
                   None \<Rightarrow> Inr s
                 | Some f \<Rightarrow> call_destroy f this s) of
             Inl e \<Rightarrow> Inl e
           | Inr s1 \<Rightarrow> Inr (set_type this None s1)))"

definition any_dtor :: "loc \<Rightarrow> 'v state \<Rightarrow> 'v result" where
  "any_dtor this s = clear this s"

text \<open>\<open>swap\<close>: \<open>std::swap(type_, other.type_); std::swap(data_, other.data_);\<close>\<close>

definition swap :: "loc \<Rightarrow> loc \<Rightarrow> 'v state \<Rightarrow> 'v state" where
  "swap this other s =
     (let t = m_type (objs s this);
          s1 = set_type this (m_type (objs s other)) s;
          s2 = set_type other t s1;
          d = m_data (objs s2 this);
          s3 = set_data this (m_data (objs s2 other)) s2
      in set_data other d s3)"

text \<open>
  The three \<open>operator=\<close>, all \<open>noexcept\<close>: a temporary at \<open>tmp\<close> is constructed from the
  right-hand side, swapped with \<open>*this\<close> and destroyed at the end of the expression.
\<close>

definition assign_move :: "loc \<Rightarrow> loc \<Rightarrow> loc \<Rightarrow> 'v state \<Rightarrow> 'v result" where
  "assign_move tmp this other s =
     noexcept (any_dtor tmp (swap tmp this (any_move tmp other s)))"

definition assign_copy :: "loc \<Rightarrow> loc \<Rightarrow> loc \<Rightarrow> 'v state \<Rightarrow> 'v result" where
  "assign_copy tmp this other s =
     noexcept
       (case any_copy tmp other s of
          Inl e \<Rightarrow> Inl e
        | Inr s1 \<Rightarrow> any_dtor tmp (swap tmp this s1))"

definition assign_value :: "nat \<Rightarrow> loc \<Rightarrow> loc \<Rightarrow> 'v operand \<Rightarrow> 'v state \<Rightarrow> 'v result" where
  "assign_value w tmp this other s =
     noexcept
       (case any_value w tmp other s of
          Inl e \<Rightarrow> Inl e
        | Inr s1 \<Rightarrow> any_dtor tmp (swap tmp this s1))"

subsection \<open>Queries and typed retrieval\<close>

definition empty_any :: "loc \<Rightarrow> 'v state \<Rightarrow> bool" where
  "empty_any this s = (m_type (objs s this) = None)"

definition type_any :: "loc \<Rightarrow> 'v state \<Rightarrow> type_info" where
  "type_any this s =
     (case m_type (objs s this) of
        Some t \<Rightarrow> ptype_info t
      | None \<Rightarrow> typeid_void)"

text \<open>
  Modelled from the spec: the macro \<open>CHECK\<close> of dmlc/logging.h, which is not part of the
  sources at hand. The spec treats it as the capability to fail fatally with a message:
  when the condition is false the program ends with the text streamed into it.
\<close>

definition CHECK :: "bool \<Rightarrow> string \<Rightarrow> error option" where
  "CHECK c msg = (if c then None else Some (Fatal msg))"

text \<open>
  \<open>check_type<T>()\<close> is declared without \<open>const\<close>: \<open>q\<close> is the qualification of the
  object it is called on, and a call on a \<open>const\<close> object does not compile.
  The comparison \<open>type_->ptype_info == &typeid(T)\<close> is one of addresses.
\<close>

definition check_type :: "cv \<Rightarrow> 'v ctype \<Rightarrow> loc \<Rightarrow> 'v state \<Rightarrow> error option" where
  "check_type q T this s =
     (case q of
        Const \<Rightarrow> Some IllFormed
      | NonConst \<Rightarrow>
          (case m_type (objs s this) of
             None \<Rightarrow> CHECK False ''The any container is empty''
           | Some t \<Rightarrow>
               CHECK (tid (ptype_info t) = tid (typeid T))
                 (''The stored type mismatch'' @ '' stored='' @ name (ptype_info t) @
                  '' requested='' @ name (typeid T))))"

text \<open>\<open>T& get()\<close> and \<open>const T& get() const\<close>; both bodies are the same two statements.\<close>

definition get :: "nat \<Rightarrow> 'v ctype \<Rightarrow> loc \<Rightarrow> 'v state \<Rightarrow> error + 'v" where
  "get w T this s =
     (case check_type NonConst T this s of
        Some e \<Rightarrow> Inl e
      | None \<Rightarrow>
          (case TypeInfo_get_ptr w T (m_data (objs s this)) s of
             None \<Rightarrow> Inl Undefined
           | Some x \<Rightarrow> Inr x))"

definition get_const :: "nat \<Rightarrow> 'v ctype \<Rightarrow> loc \<Rightarrow> 'v state \<Rightarrow> error + 'v" where
  "get_const w T this s =
     (case check_type Const T this s of
        Some e \<Rightarrow> Inl e
      | None \<Rightarrow>
          (case TypeInfo_get_ptr w T (m_data (objs s this)) s of
             None \<Rightarrow> Inl Undefined
           | Some x \<Rightarrow> Inr x))"

text \<open>The type of the container itself, as a template argument of \<open>get\<close>.\<close>

definition any_ctype :: "nat \<Rightarrow> 'v ctype" where
  "any_ctype w =
     \<lparr>typeid = typeid_any, sizeof = w * 4, alignof = w, is_pod = False,
      is_trivially_destructible = False, is_copy_constructible = True,
      copy_ctor = (\<lambda>x. None)\<rparr>"

subsection \<open>The states of a container\<close>

text \<open>
  The container at \<open>a\<close> holds the instance \<open>x\<close> of type \<open>T\<close>: its descriptor is the one of
  \<open>T\<close> and its buffer is encoded the way that descriptor expects.
\<close>

definition holding :: "nat \<Rightarrow> 'v ctype \<Rightarrow> 'v \<Rightarrow> loc \<Rightarrow> 'v state \<Rightarrow> bool" where
  "holding w T x a s =
     (m_type (objs s a) = Some (get_type w T) \<and>
      (if data_on_stack w T then m_data (objs s a) = Stack x
       else (case m_data (objs s a) of Pheap p \<Rightarrow> heap s p = Some x | _ \<Rightarrow> False)))"

subsection \<open>Outcomes and traces, for stating properties\<close>

definition returns :: "'v result \<Rightarrow> bool" where
  "returns r = (case r of Inr s \<Rightarrow> True | Inl e \<Rightarrow> False)"

definition state_of :: "'v result \<Rightarrow> 'v state" where
  "state_of r = (case r of Inr s \<Rightarrow> s | Inl (e, s) \<Rightarrow> s)"

fun is_Dtor :: "'v event \<Rightarrow> bool" where
  "is_Dtor (Dtor x) = True"
| "is_Dtor e = False"

fun is_Delete :: "'v event \<Rightarrow> bool" where
  "is_Delete (Delete p) = True"
| "is_Delete e = False"

subsection \<open>Example types and states\<close>

text \<open>
  On a platform with 8-byte pointers: \<open>int\<close>; \<open>std::string\<close> (32 bytes, not POD);
  a POD \<open>struct Big { char buf[64]; }\<close>; \<open>std::pair<int, int>\<close>, trivially
  destructible but not POD.
\<close>

definition T_int :: "int ctype" where
  "T_int =
     \<lparr>typeid = \<lparr>tid = 2, name = ''i''\<rparr>, sizeof = 4, alignof = 4, is_pod = True,
      is_trivially_destructible = True, is_copy_constructible = True, copy_ctor = Some\<rparr>"

definition T_string :: "int ctype" where
  "T_string =
     \<lparr>typeid = \<lparr>tid = 3, name = ''Ss''\<rparr>, sizeof = 32, alignof = 8, is_pod = False,
      is_trivially_destructible = False, is_copy_constructible = True, copy_ctor = Some\<rparr>"

definition T_big :: "int ctype" where
  "T_big =
     \<lparr>typeid = \<lparr>tid = 4, name = ''3Big''\<rparr>, sizeof = 64, alignof = 1, is_pod = True,
      is_trivially_destructible = True, is_copy_constructible = True, copy_ctor = Some\<rparr>"

definition T_pair :: "int ctype" where
  "T_pair =
     \<lparr>typeid = \<lparr>tid = 5, name = ''St4pairIiiE''\<rparr>, sizeof = 8, alignof = 4, is_pod = False,
      is_trivially_destructible = True, is_copy_constructible = True, copy_ctor = Some\<rparr>"

text \<open>A state with default-constructed containers everywhere and three free heap blocks.\<close>

definition s0 :: "int state" where
  "s0 =
     \<lparr>objs = (\<lambda>a. \<lparr>m_type = None, m_data = Indeterminate\<rparr>), heap = Map.empty,
      avail = [100, 101, 102], trace = []\<rparr>"

text \<open>
  Container 1 constructed from the \<open>int\<close> 5, from a \<open>std::string\<close>, and container 0
  constructed from a \<open>Big\<close>.
\<close>

definition s_int :: "int state" where
  "s_int = state_of (any_value 8 1 (Val T_int 5) s0)"

definition s_str :: "int state" where
  "s_str = state_of (any_value 8 1 (Val T_string 5) s0)"

definition s_big :: "int state" where
  "s_big = state_of (any_value 8 0 (Val T_big 7) s0)"

section \<open>Properties\<close>

lemmas store_defs = set_type_def set_data_def init_def log_def
lemmas strategy_defs = data_on_stack_def kStack_def kAlign_def
lemmas descriptor_defs = get_type_def TypeInfo_def TypeInfo_base_def
lemmas example_defs = T_int_def T_string_def T_big_def T_pair_def s0_def

subsection \<open>Storage strategy\<close>

text \<open>
  C7. A payload type is stored inline exactly when its size is at most three pointers and
  its alignment at most one pointer. Constructing a container from a value of such a
  type places the new instance in the buffer and leaves the heap alone; for any other
  type it takes a heap block, constructs the instance there and writes the block's
  address into the buffer. The construction returns whenever the type is copy
  constructible, the copy does not throw and, for a heap type, a block is available.
\<close>

theorem storage_strategy:
  "(data_on_stack w T \<longleftrightarrow> sizeof T \<le> 3 * w \<and> alignof T \<le> w) \<and>
   (is_copy_constructible T \<and> copy_ctor T v = Some y \<and> (data_on_stack w T \<or> avail s \<noteq> []) \<longrightarrow>
      returns (any_value w this (Val T v) s)) \<and>
   (any_value w this (Val T v) s = Inr s' \<longrightarrow>
      (if data_on_stack w T
       then \<exists>y. copy_ctor T v = Some y \<and> m_data (objs s' this) = Stack y \<and>
              heap s' = heap s \<and> avail s' = avail s \<and> trace s' = trace s @ [Ctor y]
       else \<exists>y p. copy_ctor T v = Some y \<and> m_data (objs s' this) = Pheap p \<and>
              avail s = p # avail s' \<and> heap s' = (heap s)(p \<mapsto> y) \<and>
              trace s' = trace s @ [New p, Ctor y]))"
proof (intro conjI impI)
  show "data_on_stack w T \<longleftrightarrow> sizeof T \<le> 3 * w \<and> alignof T \<le> w"
    by (auto simp: strategy_defs)
next
  assume "is_copy_constructible T \<and> copy_ctor T v = Some y \<and> (data_on_stack w T \<or> avail s \<noteq> [])"
  then show "returns (any_value w this (Val T v) s)"
    by (cases "avail s") (auto simp: returns_def placement_new_def new_T_def store_defs Let_def)
next
  assume "any_value w this (Val T v) s = Inr s'"
  then show "if data_on_stack w T
       then \<exists>y. copy_ctor T v = Some y \<and> m_data (objs s' this) = Stack y \<and>
              heap s' = heap s \<and> avail s' = avail s \<and> trace s' = trace s @ [Ctor y]
       else \<exists>y p. copy_ctor T v = Some y \<and> m_data (objs s' this) = Pheap p \<and>
              avail s = p # avail s' \<and> heap s' = (heap s)(p \<mapsto> y) \<and>
              trace s' = trace s @ [New p, Ctor y]"
    by (auto simp: placement_new_def new_T_def store_defs Let_def
             split: if_splits option.splits list.splits)
qed

theorem storage_strategy_witness:
  "returns (any_value 8 0 (Val T_string 7) s0) \<and> \<not> data_on_stack 8 T_string \<and>
   (\<exists>y p. copy_ctor T_string 7 = Some y \<and>
      m_data (objs (state_of (any_value 8 0 (Val T_string 7) s0)) 0) = Pheap p \<and>
      heap (state_of (any_value 8 0 (Val T_string 7) s0)) = (heap s0)(p \<mapsto> y))"
proof -
  let ?s' = "state_of (any_value 8 0 (Val T_string 7) s0)"
  have a: "any_value 8 0 (Val T_string 7) s0 = Inr ?s'"
    by (simp add: state_of_def example_defs strategy_defs new_T_def store_defs)
  have c: "is_copy_constructible T_string \<and> copy_ctor T_string 7 = Some 7 \<and>
           (data_on_stack 8 T_string \<or> avail s0 \<noteq> [])"
    by (simp add: example_defs)
  have d: "\<not> data_on_stack 8 T_string"
    by (simp add: T_string_def strategy_defs)
  note inst = storage_strategy [of 8 T_string 7 7 s0 0 ?s']
  from inst c have "returns (any_value 8 0 (Val T_string 7) s0)"
    by blast
  moreover from inst a d have "\<exists>y p. copy_ctor T_string 7 = Some y \<and>
      m_data (objs ?s' 0) = Pheap p \<and> avail s0 = p # avail ?s' \<and>
      heap ?s' = (heap s0)(p \<mapsto> y) \<and> trace ?s' = trace s0 @ [New p, Ctor y]"
    by presburger
  ultimately show ?thesis
    using d by blast
qed

subsection \<open>What the queries read, and what each step leaves alone\<close>

lemma get_cong:
  "objs s' b = objs s a \<Longrightarrow> heap s' = heap s \<Longrightarrow> get w T b s' = get w T a s"
  by (simp add: get_def check_type_def TypeInfo_get_ptr_def TypeOnHeap_get_ptr_def
           split: option.splits Data.splits)

lemma query_cong:
  "objs s' b = objs s a \<Longrightarrow> type_any b s' = type_any a s \<and> empty_any b s' = empty_any a s"
  by (simp add: type_any_def empty_any_def)

lemma holding_cong:
  "objs s' b = objs s a \<Longrightarrow> heap s' = heap s \<Longrightarrow> holding w T x b s' = holding w T x a s"
  by (simp add: holding_def split: Data.splits)

lemma holding_get:
  assumes "holding w T x a s"
  shows "get w T a s = Inr x" and "\<not> empty_any a s" and "type_any a s = typeid T"
  using assms
  by (auto simp: holding_def get_def check_type_def CHECK_def TypeInfo_get_ptr_def
        TypeOnStack_get_ptr_def TypeOnHeap_get_ptr_def empty_any_def type_any_def descriptor_defs
        split: Data.splits if_splits)

lemma clear_empty: "m_type (objs s a) = None \<Longrightarrow> clear a s = Inr s"
  by (simp add: clear_def)

lemma get_empty:
  "m_type (objs s a) = None \<Longrightarrow> get w T a s = Inl (Fatal ''The any container is empty'')"
  by (simp add: get_def check_type_def CHECK_def)

lemma any_move_objs:
  "a \<noteq> b \<Longrightarrow> objs (any_move b a s) b = objs s a"
  "a \<noteq> b \<Longrightarrow> objs (any_move b a s) a = (objs s a)\<lparr>m_type := None\<rparr>"
  "c \<noteq> a \<Longrightarrow> c \<noteq> b \<Longrightarrow> objs (any_move b a s) c = objs s c"
  by (simp_all add: any_move_def construct_move_def store_defs Let_def)

lemma any_move_rest:
  "heap (any_move b a s) = heap s" "avail (any_move b a s) = avail s"
  "trace (any_move b a s) = trace s"
  by (simp_all add: any_move_def construct_move_def store_defs Let_def)

lemma swap_objs:
  "objs (swap a b s) a = objs s b" "objs (swap a b s) b = objs s a"
  "c \<noteq> a \<Longrightarrow> c \<noteq> b \<Longrightarrow> objs (swap a b s) c = objs s c"
  by (simp_all add: swap_def store_defs Let_def)

lemma swap_rest:
  "heap (swap a b s) = heap s" "avail (swap a b s) = avail s" "trace (swap a b s) = trace s"
  by (simp_all add: swap_def store_defs Let_def)

lemma call_destroy_objs:
  "call_destroy f a s = Inr s' \<Longrightarrow> objs s' = objs s"
  by (cases f)
     (auto simp: TypeOnStack_destroy_def TypeOnHeap_destroy_def delete_T_def log_def
           split: Data.splits option.splits)

lemma clear_objs_other:
  "clear a s = Inr s' \<Longrightarrow> c \<noteq> a \<Longrightarrow> objs s' c = objs s c"
  by (auto simp: clear_def set_type_def dest: call_destroy_objs split: option.splits sum.splits)

lemma noexcept_Inr: "noexcept r = Inr s \<longleftrightarrow> r = Inr s"
  by (auto simp: noexcept_def split: sum.splits prod.splits)

lemma any_value_holding:
  assumes "any_value w this (Val T v) s = Inr s'"
  shows "\<exists>y. copy_ctor T v = Some y \<and> holding w T y this s'"
  using assms
  by (auto simp: holding_def placement_new_def new_T_def store_defs Let_def
           split: if_splits option.splits list.splits)

lemma returns_state_of: "returns r \<Longrightarrow> r = Inr (state_of r)"
  by (auto simp: returns_def state_of_def split: sum.splits)

text \<open>The example states are what their names say.\<close>

lemma s_int_holding: "holding 8 T_int 5 1 s_int"
proof -
  have "any_value 8 1 (Val T_int 5) s0 = Inr s_int"
    by (simp add: s_int_def state_of_def example_defs strategy_defs placement_new_def store_defs)
  from any_value_holding [OF this] show ?thesis
    by (simp add: T_int_def)
qed

lemma s_str_holding: "holding 8 T_string 5 1 s_str"
proof -
  have "any_value 8 1 (Val T_string 5) s0 = Inr s_str"
    by (simp add: s_str_def state_of_def example_defs strategy_defs new_T_def store_defs)
  from any_value_holding [OF this] show ?thesis
    by (simp add: T_string_def)
qed

lemma s_big_holding: "holding 8 T_big 7 0 s_big"
proof -
  have "any_value 8 0 (Val T_big 7) s0 = Inr s_big"
    by (simp add: s_big_def state_of_def example_defs strategy_defs new_T_def store_defs)
  from any_value_holding [OF this] show ?thesis
    by (simp add: T_big_def)
qed

subsection \<open>Descriptor\<close>

text \<open>
  C8, as the code has it. The descriptor of a type that is not POD has a destroy
  operation, the one of the accessor class chosen for the type; this covers every type
  that is not trivially destructible. The descriptor of a POD type that is stored inline
  has none. A descriptor without a destroy operation belongs to a trivially destructible
  type.
\<close>

theorem destroy_absent_pod:
  assumes "wf_ctype T"
  shows "(\<not> is_pod T \<longrightarrow> destroy (TypeInfo w T) = Some (TypeInfo_base w T)) \<and>
         (\<not> is_trivially_destructible T \<longrightarrow> destroy (TypeInfo w T) \<noteq> None) \<and>
         (is_pod T \<and> data_on_stack w T \<longrightarrow> destroy (TypeInfo w T) = None) \<and>
         (destroy (TypeInfo w T) = None \<longrightarrow> is_trivially_destructible T)"
  using assms by (auto simp: wf_ctype_def TypeInfo_def)

theorem destroy_absent_pod_witness:
  "wf_ctype T_pair \<and> wf_ctype T_int \<and> wf_ctype T_string \<and>
   \<not> is_pod T_pair \<and> destroy (TypeInfo 8 T_pair) = Some (TypeInfo_base 8 T_pair) \<and>
   \<not> is_trivially_destructible T_string \<and> destroy (TypeInfo 8 T_string) \<noteq> None \<and>
   is_pod T_int \<and> data_on_stack 8 T_int \<and> destroy (TypeInfo 8 T_int) = None \<and>
   is_trivially_destructible T_int"
proof -
  have a: "wf_ctype T_pair" and b: "wf_ctype T_int" and c: "wf_ctype T_string"
    by (simp_all add: wf_ctype_def typeid_void_def typeid_any_def example_defs)
  have d: "\<not> is_pod T_pair" and e: "is_pod T_int \<and> data_on_stack 8 T_int"
    and f: "\<not> is_trivially_destructible T_string"
    by (simp_all add: example_defs strategy_defs)
  from destroy_absent_pod [OF a, of 8] destroy_absent_pod [OF b, of 8]
    destroy_absent_pod [OF c, of 8] a b c d e f
  show ?thesis by blast
qed

text \<open>
  C8 as stated fails at \<open>std::pair<int, int>\<close>: the type is trivially destructible, and
  its descriptor has a destroy operation.
\<close>

theorem destroy_present_trivially_destructible:
  "wf_ctype T_pair \<and> is_trivially_destructible T_pair \<and>
   destroy (TypeInfo 8 T_pair) = Some (TypeOnStack T_pair)"
  by (simp add: wf_ctype_def typeid_void_def typeid_any_def T_pair_def descriptor_defs
        strategy_defs)

subsection \<open>Swap\<close>

text \<open>
  C9. \<open>swap\<close> exchanges the two containers, descriptor pointer and buffer, and changes
  nothing else: no other container, no heap block, and the trace is the same, so no
  payload constructor or destructor runs and nothing is allocated or freed. What
  \<open>get\<close>, \<open>type\<close> and \<open>empty\<close> answered for one container before, they answer for the
  other afterwards.
\<close>

theorem swap_exchanges:
  "objs (swap a b s) a = objs s b \<and> objs (swap a b s) b = objs s a \<and>
   (\<forall>c. c \<noteq> a \<and> c \<noteq> b \<longrightarrow> objs (swap a b s) c = objs s c) \<and>
   heap (swap a b s) = heap s \<and> avail (swap a b s) = avail s \<and> trace (swap a b s) = trace s \<and>
   get w T b (swap a b s) = get w T a s \<and> get w T a (swap a b s) = get w T b s \<and>
   type_any b (swap a b s) = type_any a s \<and> type_any a (swap a b s) = type_any b s \<and>
   empty_any b (swap a b s) = empty_any a s \<and> empty_any a (swap a b s) = empty_any b s"
proof -
  have o: "objs (swap a b s) a = objs s b" "objs (swap a b s) b = objs s a"
    by (rule swap_objs)+
  have h: "heap (swap a b s) = heap s"
    by (rule swap_rest)
  have f: "\<forall>c. c \<noteq> a \<and> c \<noteq> b \<longrightarrow> objs (swap a b s) c = objs s c"
    by (simp add: swap_objs)
  show ?thesis
    using o f get_cong [OF o(1) h] get_cong [OF o(2) h] query_cong [OF o(1)] query_cong [OF o(2)]
    by (simp add: swap_rest)
qed

theorem swap_exchanges_witness:
  "(2::nat) \<noteq> 1 \<and> (2::nat) \<noteq> 0 \<and> objs (swap 1 0 s_str) 2 = objs s_str 2 \<and>
   get 8 T_string 0 (swap 1 0 s_str) = Inr 5 \<and> empty_any 1 (swap 1 0 s_str) \<and>
   trace (swap 1 0 s_str) = trace s_str"
proof -
  have e: "empty_any 0 s_str"
    by (simp add: empty_any_def s_str_def state_of_def example_defs strategy_defs new_T_def
          store_defs)
  from swap_exchanges [of 1 0 s_str 8 T_string] holding_get(1) [OF s_str_holding] e
  show ?thesis by simp
qed

subsection \<open>Move construction\<close>

text \<open>
  C3. Move-constructing the container at \<open>b\<close> from the one at \<open>a\<close>, empty or not, gives
  \<open>b\<close> the descriptor pointer and the buffer of \<open>a\<close> and leaves \<open>a\<close> empty. Heap,
  allocator and trace are unchanged: no destroy, copy or other operation of the payload
  type runs. \<open>b\<close> answers \<open>get\<close>, \<open>type\<close> and \<open>empty\<close> as \<open>a\<close> did, and holds what
  \<open>a\<close> held.
\<close>

theorem move_construct:
  assumes "a \<noteq> b"
  shows "m_type (objs (any_move b a s) b) = m_type (objs s a) \<and>
         m_data (objs (any_move b a s) b) = m_data (objs s a) \<and>
         empty_any a (any_move b a s) \<and>
         heap (any_move b a s) = heap s \<and> avail (any_move b a s) = avail s \<and>
         trace (any_move b a s) = trace s \<and>
         get w T b (any_move b a s) = get w T a s \<and>
         type_any b (any_move b a s) = type_any a s \<and>
         empty_any b (any_move b a s) = empty_any a s \<and>
         holding w T x b (any_move b a s) = holding w T x a s"
proof -
  have o: "objs (any_move b a s) b = objs s a"
    using assms by (rule any_move_objs)
  have e: "objs (any_move b a s) a = (objs s a)\<lparr>m_type := None\<rparr>"
    using assms by (rule any_move_objs)
  have h: "heap (any_move b a s) = heap s"
    by (rule any_move_rest)
  show ?thesis
    using o e get_cong [OF o h] holding_cong [OF o h] query_cong [OF o]
    by (simp add: any_move_rest empty_any_def)
qed

theorem move_construct_witness:
  "(1::nat) \<noteq> 0 \<and> empty_any 1 (any_move 0 1 s_str) \<and>
   get 8 T_string 0 (any_move 0 1 s_str) = Inr 5 \<and>
   holding 8 T_string 5 0 (any_move 0 1 s_str) \<and>
   trace (any_move 0 1 s_str) = trace s_str \<and> heap (any_move 0 1 s_str) = heap s_str"
proof -
  have n: "(1::nat) \<noteq> 0" by simp
  from move_construct [OF n, of s_str 8 T_string 5] holding_get(1) [OF s_str_holding]
    s_str_holding
  show ?thesis by simp
qed

subsection \<open>Clear\<close>

text \<open>
  C6. \<open>clear\<close> returns on every container that is empty or holds a value. Whenever it
  returns, the container is empty, a second \<open>clear\<close> returns the very same state (so it
  releases nothing), and the first call ran at most one destructor and at most one
  \<open>delete\<close>.
\<close>

theorem clear_idempotent:
  "(empty_any a s \<or> holding w T x a s \<longrightarrow> returns (clear a s)) \<and>
   (clear a s = Inr s1 \<longrightarrow>
      empty_any a s1 \<and> clear a s1 = Inr s1 \<and>
      (\<exists>evs. trace s1 = trace s @ evs \<and>
         length (filter is_Dtor evs) \<le> 1 \<and> length (filter is_Delete evs) \<le> 1))"
proof (intro conjI impI)
  assume "empty_any a s \<or> holding w T x a s"
  then show "returns (clear a s)"
    by (auto simp: returns_def empty_any_def holding_def clear_def descriptor_defs
          TypeOnStack_destroy_def TypeOnHeap_destroy_def delete_T_def
          split: Data.splits if_splits)
next
  assume c: "clear a s = Inr s1"
  then show "empty_any a s1"
    by (auto simp: clear_def empty_any_def store_defs split: option.splits sum.splits)
  then show "clear a s1 = Inr s1"
    by (simp add: clear_empty empty_any_def)
  from c show "\<exists>evs. trace s1 = trace s @ evs \<and>
         length (filter is_Dtor evs) \<le> 1 \<and> length (filter is_Delete evs) \<le> 1"
  proof (cases "m_type (objs s a)")
    case None
    with c show ?thesis by (simp add: clear_def)
  next
    case (Some t)
    show ?thesis
    proof (cases "destroy t")
      case None
      with c Some show ?thesis by (auto simp: clear_def store_defs)
    next
      case (Some f)
      with c \<open>m_type (objs s a) = Some t\<close> show ?thesis
        by (cases f)
           (auto simp: clear_def store_defs TypeOnStack_destroy_def TypeOnHeap_destroy_def
                 delete_T_def split: Data.splits option.splits sum.splits)
    qed
  qed
qed

theorem clear_idempotent_witness:
  "holding 8 T_string 5 1 s_str \<and> returns (clear 1 s_str) \<and>
   empty_any 1 (state_of (clear 1 s_str)) \<and>
   clear 1 (state_of (clear 1 s_str)) = Inr (state_of (clear 1 s_str))"
proof -
  note inst = clear_idempotent [of 1 s_str 8 T_string 5 "state_of (clear 1 s_str)"]
  from inst s_str_holding have r: "returns (clear 1 s_str)"
    by blast
  from inst returns_state_of [OF r] s_str_holding r show ?thesis
    by blast
qed

subsection \<open>Moved-from containers\<close>

lemma assign_move_source:
  assumes "assign_move tmp b a s = Inr s'" and "a \<noteq> b" and "a \<noteq> tmp"
  shows "objs s' a = (objs s a)\<lparr>m_type := None\<rparr>"
proof -
  from assms(1) have c: "clear tmp (swap tmp b (any_move tmp a s)) = Inr s'"
    by (simp add: assign_move_def any_dtor_def noexcept_Inr)
  have "objs s' a = objs (swap tmp b (any_move tmp a s)) a"
    using clear_objs_other [OF c assms(3)] .
  also have "\<dots> = objs (any_move tmp a s) a"
    using assms(2,3) by (simp add: swap_objs)
  also have "\<dots> = (objs s a)\<lparr>m_type := None\<rparr>"
    using assms(3) by (simp add: any_move_objs)
  finally show ?thesis .
qed

text \<open>
  C10. After the container at \<open>a\<close> has been moved from, by the move constructor of
  another container \<open>b\<close> or by a move assignment to \<open>b\<close> through the temporary \<open>tmp\<close>,
  its descriptor pointer is null while its buffer still has the old content. \<open>empty\<close>
  is true, \<open>type\<close> is \<open>typeid(void)\<close>, \<open>get\<close> fails as on an empty container, and
  \<open>clear\<close> and the destructor return the state unchanged, so they destroy nothing. A
  default-constructed container gives the same answers.
\<close>

theorem moved_from_like_default:
  assumes "a \<noteq> b" and "a \<noteq> tmp"
    and "s' = any_move b a s \<or> assign_move tmp b a s = Inr s'"
  shows "m_type (objs s' a) = None \<and> m_data (objs s' a) = m_data (objs s a) \<and>
         empty_any a s' \<and> type_any a s' = typeid_void \<and>
         clear a s' = Inr s' \<and> any_dtor a s' = Inr s' \<and>
         get w T a s' = Inl (Fatal ''The any container is empty'') \<and>
         empty_any a (any_default a s') \<and> type_any a (any_default a s') = typeid_void \<and>
         get w T a (any_default a s') = Inl (Fatal ''The any container is empty'')"
proof -
  have o: "objs s' a = (objs s a)\<lparr>m_type := None\<rparr>"
    using assms any_move_objs(2) [of a b s] assign_move_source [of tmp b a s s'] by blast
  then have n: "m_type (objs s' a) = None" and d: "m_data (objs s' a) = m_data (objs s a)"
    by simp_all
  have n': "m_type (objs (any_default a s') a) = None"
    by (simp add: any_default_def init_def)
  show ?thesis
    using n d clear_empty [OF n] get_empty [OF n] get_empty [OF n']
    by (simp add: empty_any_def type_any_def any_dtor_def any_default_def init_def)
qed

lemma assign_move_returns:
  assumes "holding w T x a s" and "m_type (objs s b) = None" and "a \<noteq> b" and "a \<noteq> tmp"
    and "b \<noteq> tmp"
  shows "returns (assign_move tmp b a s)"
proof -
  have "m_type (objs (swap tmp b (any_move tmp a s)) tmp) = None"
    using assms by (simp add: swap_objs any_move_objs)
  from clear_empty [OF this] show ?thesis
    by (simp add: assign_move_def any_dtor_def noexcept_def returns_def)
qed

theorem moved_from_like_default_witness:
  "(1::nat) \<noteq> 0 \<and> (1::nat) \<noteq> 9 \<and>
   m_data (objs (any_move 0 1 s_str) 1) = m_data (objs s_str 1) \<and>
   empty_any 1 (any_move 0 1 s_str) \<and> type_any 1 (any_move 0 1 s_str) = typeid_void \<and>
   clear 1 (any_move 0 1 s_str) = Inr (any_move 0 1 s_str) \<and>
   returns (assign_move 9 0 1 s_str) \<and>
   empty_any 1 (state_of (assign_move 9 0 1 s_str)) \<and>
   clear 1 (state_of (assign_move 9 0 1 s_str)) = Inr (state_of (assign_move 9 0 1 s_str))"
proof -
  have n: "(1::nat) \<noteq> 0" "(1::nat) \<noteq> 9" "(0::nat) \<noteq> 9"
    by simp_all
  have e: "m_type (objs s_str 0) = None"
    by (simp add: s_str_def state_of_def example_defs strategy_defs new_T_def store_defs)
  have r: "returns (assign_move 9 0 1 s_str)"
    using assign_move_returns [OF s_str_holding e n] .
  have m: "any_move 0 1 s_str = any_move 0 1 s_str \<or>
           assign_move 9 0 1 s_str = Inr (any_move 0 1 s_str)"
    by simp
  have a: "state_of (assign_move 9 0 1 s_str) = any_move 0 1 s_str \<or>
           assign_move 9 0 1 s_str = Inr (state_of (assign_move 9 0 1 s_str))"
    using returns_state_of [OF r] by simp
  from moved_from_like_default [OF n(1) n(2) m, of 8 T_string]
    moved_from_like_default [OF n(1) n(2) a, of 8 T_string] r
  show ?thesis by simp
qed

subsection \<open>Construction from a value\<close>

text \<open>
  C2, as the code has it. Let \<open>T\<close> be a copy-constructible payload type, that is, not the
  container type itself, and \<open>v\<close> a value whose copy equals it. When \<open>T\<close> is stored
  inline or a heap block is free, constructing a container from \<open>v\<close> returns, and then
  \<open>get<T>()\<close> is \<open>v\<close>, \<open>empty()\<close> is false and \<open>type()\<close> is \<open>typeid(T)\<close>.
\<close>

theorem construct_then_get:
  assumes "is_copy_constructible T" and "copy_ctor T v = Some v"
    and "data_on_stack w T \<or> avail s \<noteq> []"
  shows "returns (any_value w this (Val T v) s) \<and>
         get w T this (state_of (any_value w this (Val T v) s)) = Inr v \<and>
         \<not> empty_any this (state_of (any_value w this (Val T v) s)) \<and>
         type_any this (state_of (any_value w this (Val T v) s)) = typeid T"
proof -
  have r: "returns (any_value w this (Val T v) s)"
    using assms
    by (cases "avail s") (auto simp: returns_def placement_new_def new_T_def store_defs Let_def)
  then obtain s' where s': "any_value w this (Val T v) s = Inr s'"
    by (auto simp: returns_def split: sum.splits)
  from any_value_holding [OF s'] assms(2) have "holding w T v this s'"
    by simp
  from holding_get [OF this] r s' show ?thesis
    by (simp add: state_of_def)
qed

theorem construct_then_get_witness:
  "is_copy_constructible T_string \<and> copy_ctor T_string 7 = Some 7 \<and>
   (data_on_stack 8 T_string \<or> avail s0 \<noteq> []) \<and>
   returns (any_value 8 0 (Val T_string 7) s0) \<and>
   get 8 T_string 0 (state_of (any_value 8 0 (Val T_string 7) s0)) = Inr 7 \<and>
   \<not> empty_any 0 (state_of (any_value 8 0 (Val T_string 7) s0)) \<and>
   type_any 0 (state_of (any_value 8 0 (Val T_string 7) s0)) = typeid T_string"
proof -
  have a: "is_copy_constructible T_string" and b: "copy_ctor T_string 7 = Some 7"
    and c: "data_on_stack 8 T_string \<or> avail s0 \<noteq> []"
    by (simp_all add: example_defs)
  from construct_then_get [OF a b c, of 0] a b c show ?thesis
    by blast
qed

text \<open>
  C2 as stated fails at the container type, which is copy constructible too. A container
  constructed from the container 1, which holds the \<open>int\<close> 5, holds a copy of that
  \<open>int\<close>, and \<open>get<any>()\<close> on it fails.
\<close>

theorem construct_from_any_then_get:
  "is_copy_constructible (any_ctype 8 :: int ctype) \<and>
   returns (any_value 8 0 (AnyLvalue 1) s_int) \<and>
   get 8 (any_ctype 8) 0 (state_of (any_value 8 0 (AnyLvalue 1) s_int)) =
     Inl (Fatal ''The stored type mismatch stored=i requested=N4dmlc3anyE'') \<and>
   get 8 T_int 0 (state_of (any_value 8 0 (AnyLvalue 1) s_int)) = Inr 5"
  by (simp add: any_ctype_def typeid_any_def returns_def state_of_def s_int_def example_defs
        strategy_defs descriptor_defs construct_copy_def noexcept_def
        TypeOnStack_create_from_data_def TypeOnStack_get_ptr_def placement_new_def store_defs
        get_def check_type_def CHECK_def TypeInfo_get_ptr_def)

subsection \<open>Typed retrieval\<close>

text \<open>
  The non-const \<open>get<T>()\<close> on a container that is empty or holds an \<open>x\<close> of type \<open>S\<close>,
  where a \<open>type_info\<close> address stands for one type: it fails on the empty container, it
  fails with both names in the message when the addresses differ, and it returns \<open>x\<close>
  otherwise.
\<close>

lemma get_nonconst:
  assumes "m_type (objs s a) = None \<or> holding w S x a s"
    and "tid (typeid S) = tid (typeid T) \<Longrightarrow> S = T"
  shows "get w T a s =
           (if m_type (objs s a) = None then Inl (Fatal ''The any container is empty'')
            else if tid (typeid S) \<noteq> tid (typeid T)
              then Inl (Fatal (''The stored type mismatch stored='' @ name (typeid S) @
                               '' requested='' @ name (typeid T)))
              else Inr x)"
proof (cases "m_type (objs s a) = None")
  case True
  then show ?thesis by (simp add: get_empty)
next
  case False
  with assms(1) have h: "holding w S x a s" by simp
  show ?thesis
  proof (cases "tid (typeid S) = tid (typeid T)")
    case True
    with assms(2) h holding_get(1) [of w T x a s] False show ?thesis by simp
  next
    case False
    with h show ?thesis
      by (auto simp: holding_def get_def check_type_def CHECK_def descriptor_defs)
  qed
qed

text \<open>
  C4 on the const overload: container 1 holds the \<open>int\<close> 5; the non-const \<open>get<int>()\<close>
  returns 5, and the const \<open>get<int>()\<close> is rejected, because it calls \<open>check_type\<close>,
  which is not a const member.
\<close>

theorem get_const_ill_formed:
  "holding 8 T_int 5 1 s_int \<and> get 8 T_int 1 s_int = Inr 5 \<and>
   get_const 8 T_int 1 s_int = Inl IllFormed"
  using s_int_holding holding_get(1) [OF s_int_holding]
  by (simp add: get_const_def check_type_def)

subsection \<open>Release of heap blocks\<close>

text \<open>
  Clearing a container that holds a value of a heap-stored type that is not POD runs the
  destructor and deletes the block, once. For a heap-stored POD type the descriptor has no
  destroy operation and \<open>clear\<close> only resets the descriptor pointer.
\<close>

lemma clear_heap_non_pod:
  assumes "holding w T x a s" and "\<not> data_on_stack w T" and "\<not> is_pod T"
  shows "\<exists>p. m_data (objs s a) = Pheap p \<and> heap s p = Some x \<and>
           clear a s =
             Inr (set_type a None
                   (log [Dtor x, Delete p] (s\<lparr>heap := (heap s)(p := None), avail := p # avail s\<rparr>)))"
  using assms
  by (auto simp: holding_def clear_def descriptor_defs TypeOnHeap_destroy_def delete_T_def
           split: Data.splits)

lemma clear_heap_pod:
  assumes "holding w T x a s" and "\<not> data_on_stack w T" and "is_pod T"
  shows "destroy (get_type w T) = None \<and> clear a s = Inr (set_type a None s)"
  using assms by (auto simp: holding_def clear_def descriptor_defs)

text \<open>
  C1 at \<open>struct Big { char buf[64]; }\<close>: container 0 holds a \<open>Big\<close> in the heap block 100.
  Its descriptor has no destroy operation; after \<open>clear\<close> the container is empty, the
  block is still allocated, and the trace has the \<open>new\<close> and no \<open>delete\<close>.
\<close>

theorem clear_leaks_heap_pod:
  "is_pod T_big \<and> \<not> data_on_stack 8 T_big \<and> holding 8 T_big 7 0 s_big \<and>
   m_data (objs s_big 0) = Pheap 100 \<and> destroy (get_type 8 T_big) = None \<and>
   returns (clear 0 s_big) \<and> empty_any 0 (state_of (clear 0 s_big)) \<and>
   heap (state_of (clear 0 s_big)) 100 = Some 7 \<and>
   trace (state_of (clear 0 s_big)) = [New 100, Ctor 7]"
proof -
  have p: "is_pod T_big" and h: "\<not> data_on_stack 8 T_big"
    by (simp_all add: T_big_def strategy_defs)
  have s: "m_data (objs s_big 0) = Pheap 100" "heap s_big 100 = Some 7"
    "trace s_big = [New 100, Ctor 7]"
    by (simp_all add: s_big_def state_of_def example_defs strategy_defs new_T_def store_defs)
  from clear_heap_pod [OF s_big_holding h p] p h s s_big_holding show ?thesis
    by (simp add: returns_def state_of_def empty_any_def set_type_def)
qed

subsection \<open>Assignment\<close>

text \<open>
  An assignment that ends in \<open>std::terminate\<close>, because the construction of the
  temporary threw, has not touched the target.
\<close>

lemma call_destroy_error:
  "call_destroy f a s = Inl (e, s') \<Longrightarrow> e = Undefined"
  by (cases f)
     (auto simp: TypeOnStack_destroy_def TypeOnHeap_destroy_def delete_T_def
           split: Data.splits option.splits)

lemma clear_error: "clear a s = Inl (e, s') \<Longrightarrow> e = Undefined"
  by (auto simp: clear_def dest: call_destroy_error split: option.splits sum.splits)

lemma create_from_data_error:
  "call_create_from_data f tmp b s = Inl (e, s') \<Longrightarrow> objs s' = objs s \<and> heap s' = heap s"
  by (cases f)
     (auto simp: TypeOnStack_create_from_data_def TypeOnHeap_create_from_data_def
           placement_new_def new_T_def split: option.splits list.splits sum.splits)

lemma any_value_error:
  assumes "any_value w tmp rhs s = Inl (e, s')" and "tmp \<noteq> this"
  shows "objs s' this = objs s this \<and> heap s' = heap s"
proof (cases rhs)
  case (Val T v)
  with assms show ?thesis
    by (auto simp: placement_new_def new_T_def store_defs Let_def
             split: if_splits option.splits list.splits sum.splits)
next
  case (AnyLvalue b)
  with assms show ?thesis
    by (auto simp: construct_copy_def noexcept_def store_defs Let_def
             dest!: create_from_data_error split: if_splits option.splits sum.splits prod.splits)
next
  case (AnyRvalue q b)
  with assms show ?thesis
    by (cases q)
       (auto simp: construct_copy_def noexcept_def store_defs Let_def
             dest!: create_from_data_error split: if_splits option.splits sum.splits prod.splits)
qed

lemma assign_value_terminated:
  assumes "assign_value w tmp this rhs s = Inl (Terminated, s')" and "tmp \<noteq> this"
  shows "objs s' this = objs s this \<and> heap s' = heap s"
proof (cases "any_value w tmp rhs s")
  case (Inl r)
  with assms(1) have "any_value w tmp rhs s = Inl (fst r, s')"
    by (cases r) (auto simp: assign_value_def noexcept_def split: if_splits)
  from any_value_error [OF this assms(2)] show ?thesis .
next
  case (Inr s1)
  with assms(1) have "\<exists>e. clear tmp (swap tmp this s1) = Inl (e, s') \<and> e \<noteq> Undefined"
    by (auto simp: assign_value_def any_dtor_def noexcept_def split: sum.splits if_splits)
  with clear_error show ?thesis by blast
qed

text \<open>Assigning a container to itself, by move and by copy.\<close>

lemma assign_move_self:
  assumes "tmp \<noteq> a"
  shows "returns (assign_move tmp a a s) \<and>
         objs (state_of (assign_move tmp a a s)) a = objs s a \<and>
         heap (state_of (assign_move tmp a a s)) = heap s \<and>
         trace (state_of (assign_move tmp a a s)) = trace s"
proof -
  let ?s2 = "swap tmp a (any_move tmp a s)"
  have t: "m_type (objs ?s2 tmp) = None"
    using assms by (simp add: swap_objs any_move_objs)
  have "objs ?s2 a = objs (any_move tmp a s) tmp"
    by (simp add: swap_objs)
  also have "\<dots> = objs s a"
    using assms by (simp add: any_move_objs)
  finally have o: "objs ?s2 a = objs s a" .
  have "assign_move tmp a a s = Inr ?s2"
    using clear_empty [OF t] by (simp add: assign_move_def any_dtor_def noexcept_def)
  with o show ?thesis
    by (simp add: returns_def state_of_def swap_rest any_move_rest)
qed

lemma clear_holding_returns:
  assumes "holding w S x a s"
  shows "returns (clear a s)"
  using assms
  by (auto simp: returns_def holding_def clear_def descriptor_defs
        TypeOnStack_destroy_def TypeOnHeap_destroy_def delete_T_def
        split: Data.splits if_splits)

lemma call_destroy_heap:
  "call_destroy f a s = Inr s' \<Longrightarrow> m_data (objs s a) \<noteq> Pheap p \<Longrightarrow> heap s' p = heap s p"
  by (cases f)
     (auto simp: TypeOnStack_destroy_def TypeOnHeap_destroy_def delete_T_def log_def
           split: Data.splits option.splits)

lemma clear_keeps_holding:
  assumes "clear a s = Inr s'" and "holding w T y b s" and "b \<noteq> a"
    and "m_data (objs s a) \<noteq> m_data (objs s b) \<or> data_on_stack w T"
  shows "holding w T y b s'"
proof -
  have o: "objs s' b = objs s b"
    using clear_objs_other [OF assms(1,3)] .
  show ?thesis
  proof (cases "data_on_stack w T")
    case True
    with assms(2) o show ?thesis by (simp add: holding_def)
  next
    case False
    with assms(2) obtain p where p: "m_data (objs s b) = Pheap p" "heap s p = Some y"
      by (auto simp: holding_def split: Data.splits)
    with assms(4) False have n: "m_data (objs s a) \<noteq> Pheap p" by simp
    have "heap s' p = Some y"
      using assms(1) p(2) n
      by (auto simp: clear_def set_type_def dest: call_destroy_heap
            split: option.splits sum.splits)
    with assms(2) o p False show ?thesis by (simp add: holding_def)
  qed
qed


lemma swap_holding:
  "holding w T x b (swap a b s) = holding w T x a s"
  "holding w T x a (swap a b s) = holding w T x b s"
  by (rule holding_cong [OF swap_objs(2) swap_rest(1)])
     (rule holding_cong [OF swap_objs(1) swap_rest(1)])

text \<open>
  Assignment of a value: when the target holds a value, the temporary is at another
  address and no free block is in use, the assignment returns and the target holds the
  new instance.
\<close>

lemma any_value_frame:
  assumes "any_value w tmp (Val T v) s = Inr s1" and "tmp \<noteq> this"
    and "holding w S x this s" and "\<forall>p \<in> set (avail s). heap s p = None"
  shows "holding w S x this s1 \<and>
         (m_data (objs s1 tmp) \<noteq> m_data (objs s1 this) \<or> data_on_stack w T)"
  using assms
  by (auto simp: holding_def placement_new_def new_T_def store_defs Let_def
           split: if_splits option.splits list.splits Data.splits)

lemma assign_value_holding:
  assumes "holding w S x this s" and "tmp \<noteq> this"
    and "is_copy_constructible T" and "copy_ctor T v = Some y"
    and "data_on_stack w T \<or> avail s \<noteq> []"
    and "\<forall>p \<in> set (avail s). heap s p = None"
  shows "returns (assign_value w tmp this (Val T v) s) \<and>
         holding w T y this (state_of (assign_value w tmp this (Val T v) s))"
proof -
  have "returns (any_value w tmp (Val T v) s)"
    using assms(3,4,5)
    by (cases "avail s") (auto simp: returns_def placement_new_def new_T_def store_defs Let_def)
  then obtain s1 where s1: "any_value w tmp (Val T v) s = Inr s1"
    by (auto simp: returns_def split: sum.splits)
  from any_value_holding [OF s1] assms(4) have h1: "holding w T y tmp s1"
    by simp
  from any_value_frame [OF s1 assms(2,1,6)]
  have f1: "holding w S x this s1"
    and d1: "m_data (objs s1 tmp) \<noteq> m_data (objs s1 this) \<or> data_on_stack w T"
    by simp_all
  let ?s2 = "swap tmp this s1"
  have h2: "holding w T y this ?s2"
    using h1 by (simp add: swap_holding)
  have f2: "holding w S x tmp ?s2"
    using f1 by (simp add: swap_holding)
  have d2: "m_data (objs ?s2 tmp) \<noteq> m_data (objs ?s2 this) \<or> data_on_stack w T"
    using d1 by (auto simp: swap_objs)
  from clear_holding_returns [OF f2] obtain s3 where s3: "clear tmp ?s2 = Inr s3"
    by (auto simp: returns_def split: sum.splits)
  have "holding w T y this s3"
    using clear_keeps_holding [OF s3 h2 assms(2) [symmetric] d2] .
  moreover have "assign_value w tmp this (Val T v) s = Inr s3"
    using s1 s3 by (simp add: assign_value_def any_dtor_def noexcept_def)
  ultimately show ?thesis
    by (simp add: returns_def state_of_def)
qed


text \<open>Copy assignment of a container to itself: it returns and the value is the same.\<close>

lemma any_copy_holding:
  assumes "holding w T x a s" and "tmp \<noteq> a" and "copy_ctor T x = Some y"
    and "data_on_stack w T \<or> avail s \<noteq> []"
    and "\<forall>p \<in> set (avail s). heap s p = None"
  shows "\<exists>s1. any_copy tmp a s = Inr s1 \<and> holding w T y tmp s1 \<and> holding w T x a s1 \<and>
           (m_data (objs s1 tmp) \<noteq> m_data (objs s1 a) \<or> data_on_stack w T)"
proof (cases "data_on_stack w T")
  case True
  with assms(1,2,3) show ?thesis
    by (auto simp: any_copy_def construct_copy_def noexcept_def holding_def descriptor_defs
          TypeOnStack_create_from_data_def TypeOnStack_get_ptr_def placement_new_def store_defs)
next
  case False
  with assms(4) obtain p ps where a: "avail s = p # ps"
    by (cases "avail s") auto
  with assms(5) have n: "heap s p = None" by simp
  from False assms(1) obtain q where q: "m_data (objs s a) = Pheap q" "heap s q = Some x"
    and t: "m_type (objs s a) = Some (get_type w T)"
    by (auto simp: holding_def split: Data.splits)
  let ?s1 = "s\<lparr>objs := (objs s)(tmp := \<lparr>m_type = Some (get_type w T), m_data = Pheap p\<rparr>),
                heap := (heap s)(p \<mapsto> y), avail := ps, trace := trace s @ [New p, Ctor y]\<rparr>"
  have "any_copy tmp a s = Inr ?s1"
    using False a q t assms(2,3)
    by (simp add: any_copy_def construct_copy_def noexcept_def descriptor_defs
          TypeOnHeap_create_from_data_def TypeOnHeap_get_ptr_def new_T_def store_defs)
  moreover have "holding w T y tmp ?s1"
    using False by (simp add: holding_def)
  moreover have "holding w T x a ?s1"
    using False q t n assms(2) by (auto simp: holding_def)
  moreover have "m_data (objs ?s1 tmp) \<noteq> m_data (objs ?s1 a)"
    using q n assms(2) by auto
  ultimately show ?thesis by blast
qed

lemma assign_copy_self:
  assumes "holding w T x a s" and "tmp \<noteq> a" and "copy_ctor T x = Some x"
    and "data_on_stack w T \<or> avail s \<noteq> []"
    and "\<forall>p \<in> set (avail s). heap s p = None"
  shows "returns (assign_copy tmp a a s) \<and> holding w T x a (state_of (assign_copy tmp a a s))"
proof -
  from any_copy_holding [OF assms] obtain s1 where s1: "any_copy tmp a s = Inr s1"
    and h1: "holding w T x tmp s1" and f1: "holding w T x a s1"
    and d1: "m_data (objs s1 tmp) \<noteq> m_data (objs s1 a) \<or> data_on_stack w T"
    by blast
  let ?s2 = "swap tmp a s1"
  have h2: "holding w T x a ?s2" and f2: "holding w T x tmp ?s2"
    using h1 f1 by (simp_all add: swap_holding)
  have d2: "m_data (objs ?s2 tmp) \<noteq> m_data (objs ?s2 a) \<or> data_on_stack w T"
    using d1 by (auto simp: swap_objs)
  from clear_holding_returns [OF f2] obtain s3 where s3: "clear tmp ?s2 = Inr s3"
    by (auto simp: returns_def split: sum.splits)
  have "holding w T x a s3"
    using clear_keeps_holding [OF s3 h2 assms(2) [symmetric] d2] .
  moreover have "assign_copy tmp a a s = Inr s3"
    using s1 s3 by (simp add: assign_copy_def any_dtor_def noexcept_def)
  ultimately show ?thesis
    by (simp add: returns_def state_of_def)
qed

text \<open>
  C5 at a target that holds a \<open>Big\<close>: container 0 holds a \<open>Big\<close> in the heap block 100
  and is assigned the \<open>int\<close> 1 through the temporary 9. Afterwards the target holds the
  \<open>int\<close> and the temporary is empty, but the block 100 is still allocated and the trace
  has no destructor call and no \<open>delete\<close>: the previous content was not destroyed.
\<close>

theorem assign_leaks_heap_pod:
  "holding 8 T_big 7 0 s_big \<and>
   returns (assign_value 8 9 0 (Val T_int 1) s_big) \<and>
   holding 8 T_int 1 0 (state_of (assign_value 8 9 0 (Val T_int 1) s_big)) \<and>
   empty_any 9 (state_of (assign_value 8 9 0 (Val T_int 1) s_big)) \<and>
   heap (state_of (assign_value 8 9 0 (Val T_int 1) s_big)) 100 = Some 7 \<and>
   trace (state_of (assign_value 8 9 0 (Val T_int 1) s_big)) = [New 100, Ctor 7, Ctor 1]"
proof -
  have "assign_value 8 9 0 (Val T_int 1) s_big =
          Inr \<lparr>objs = (\<lambda>a. \<lparr>m_type = None, m_data = Indeterminate\<rparr>)
                 (0 := \<lparr>m_type = Some (get_type 8 T_int), m_data = Stack 1\<rparr>,
                  9 := \<lparr>m_type = None, m_data = Pheap 100\<rparr>),
               heap = [100 \<mapsto> 7], avail = [101, 102], trace = [New 100, Ctor 7, Ctor 1]\<rparr>"
    by (simp add: assign_value_def any_dtor_def clear_def swap_def noexcept_def s_big_def
          state_of_def example_defs strategy_defs descriptor_defs new_T_def placement_new_def
          store_defs Let_def fun_upd_twist)
  with s_big_holding show ?thesis
    by (simp add: returns_def state_of_def holding_def empty_any_def T_int_def strategy_defs)
qed

end
